theory Spec2Isabelle
  imports Complex_Main
begin

section \<open>Conventions of the embedding\<close>

text \<open>
  The program is Python. Its floats are modelled by \<open>real\<close>: every formula below is
  the source's formula read in exact arithmetic, so rounding error, infinities and NaN
  are outside the model. Its ints are \<open>int\<close>. A value that may be \<open>None\<close> is an
  \<open>option\<close>. A function that can raise returns \<open>py_error + 'a\<close>, with \<open>Inl\<close> the
  exception.
\<close>

datatype py_error = ZeroDivisionError | HTTPStatusError

definition py_truediv :: "real \<Rightarrow> real \<Rightarrow> py_error + real" where
  \<comment> \<open>Python's \<open>x / y\<close> on numbers: a zero divisor raises.\<close>
  "py_truediv x y = (if y = 0 then Inl ZeroDivisionError else Inr (x / y))"

section \<open>tools/features.py: the odds helpers\<close>

definition american_to_implied :: "int option \<Rightarrow> real option" where
  "american_to_implied odds =
     (case odds of
        None \<Rightarrow> None
      | Some a \<Rightarrow>
          if a < 0 then Some (real_of_int (- a) / real_of_int ((- a) + 100))
          else if a > 0 then Some (100 / real_of_int (a + 100))
          else None)"

definition ev_from_prob :: "real \<Rightarrow> int \<Rightarrow> py_error + real" where
  "ev_from_prob p odds =
     (case (if odds > 0 then Inr (real_of_int odds / 100)
            else py_truediv 100 (real_of_int (- odds))) of
        Inl e \<Rightarrow> Inl e
      | Inr profit \<Rightarrow> Inr (p * profit - (1 - p)))"

definition kelly_body :: "real \<Rightarrow> real \<Rightarrow> py_error + real" where
  \<comment> \<open>The body of \<open>kelly_fraction\<close> from \<open>q = 1.0 - p\<close> on, as a function of \<open>p\<close> and \<open>b\<close>.
      \<open>numer / denom\<close> is Python's division, which raises on a zero divisor; the
      \<open>if denom == 0\<close> before it is what keeps a zero \<open>b\<close> from raising.\<close>
  "kelly_body p b =
     (let q = 1 - p;
          numer = p * (b + 1) - 1;
          denom = b
      in if denom = 0 then Inr 0
         else (case py_truediv numer denom of
                 Inl e \<Rightarrow> Inl e
               | Inr f \<Rightarrow> Inr (max 0 f)))"

definition kelly_fraction :: "real \<Rightarrow> int \<Rightarrow> py_error + real" where
  "kelly_fraction p odds =
     (case (if odds > 0 then Inr (real_of_int odds / 100)
            else py_truediv 100 (real_of_int (- odds))) of
        Inl e \<Rightarrow> Inl e
      | Inr b \<Rightarrow> kelly_body p b)"

definition spec_profit_if_win :: "int \<Rightarrow> real" where
  \<comment> \<open>The specification's wording: \<open>a/100\<close> when \<open>a > 0\<close>, else \<open>100/|a|\<close>.\<close>
  "spec_profit_if_win a = (if a > 0 then real_of_int a / 100 else 100 / \<bar>real_of_int a\<bar>)"

section \<open>tools/injuries.py\<close>

definition load_adjustments :: "(string \<rightharpoonup> real) option \<Rightarrow> (string \<rightharpoonup> real)" where
  \<comment> \<open>\<open>_load_adjustments\<close>: the argument is what reading and parsing the file gives,
      \<open>None\<close> when the file is missing or malformed (the \<open>except\<close> branch).\<close>
  "load_adjustments file = (case file of None \<Rightarrow> Map.empty | Some data \<Rightarrow> data)"

definition clamp :: "real \<Rightarrow> real \<Rightarrow> real \<Rightarrow> real" where
  "clamp x lo hi = (if x > hi then hi else if x < lo then lo else x)"

definition adjust_home_prob ::
  "(string \<rightharpoonup> real) option \<Rightarrow> string \<Rightarrow> string \<Rightarrow> real \<Rightarrow> real" where
  "adjust_home_prob file home_team away_team p_home =
     (let adj = load_adjustments file;
          dh = (case adj home_team of None \<Rightarrow> 0 | Some v \<Rightarrow> v);
          da = (case adj away_team of None \<Rightarrow> 0 | Some v \<Rightarrow> v)
      in clamp (p_home + dh - da) (1 / 100) (99 / 100))"

section \<open>tools/odds_tool.py: best price per market\<close>

definition american_payout_per_dollar :: "int \<Rightarrow> py_error + real" where
  \<comment> \<open>\<open>_american_payout_per_dollar\<close>; \<open>100.0 / abs(a)\<close> raises at \<open>a = 0\<close>.\<close>
  "american_payout_per_dollar american =
     (let a = real_of_int american
      in if a \<ge> 100 then Inr (a / 100) else py_truediv 100 \<bar>a\<bar>)"

definition choose_better_moneyline :: "int option \<Rightarrow> int option \<Rightarrow> py_error + int option" where
  \<comment> \<open>\<open>_choose_better_moneyline\<close>; the payout of \<open>new\<close> is evaluated first.\<close>
  "choose_better_moneyline current new =
     (case new of
        None \<Rightarrow> Inr current
      | Some n \<Rightarrow>
          (case current of
             None \<Rightarrow> Inr new
           | Some c \<Rightarrow>
               (case american_payout_per_dollar n of
                  Inl e \<Rightarrow> Inl e
                | Inr pn \<Rightarrow>
                    (case american_payout_per_dollar c of
                       Inl e \<Rightarrow> Inl e
                     | Inr pc \<Rightarrow> Inr (if pn > pc then new else current)))))"

definition spec_payout_per_dollar :: "int \<Rightarrow> real" where
  \<comment> \<open>The specification's wording: \<open>a/100\<close> for positive odds \<open>a \<ge> 100\<close>, \<open>100/|a|\<close> for
      negative odds. (Nothing is said about other values; they get the second formula.)\<close>
  "spec_payout_per_dollar a =
     (if 100 \<le> a then real_of_int a / 100 else 100 / real_of_int \<bar>a\<bar>)"

text \<open>
  The JSON of the odds source. A key that may be missing or \<open>null\<close> is an option; a
  missing list is the empty list (the source reads lists with \<open>.get(key, [])\<close> or
  \<open>.get(key) or []\<close>).
\<close>

record outcome =
  o_name :: "string option"
  o_price :: "int option"
  o_point :: "real option"

record market =
  m_key :: "string option"
  m_outcomes :: "outcome list"

record bookmaker =
  bk_markets :: "market list"

record raw_game =
  g_id :: "string option"
  g_commence_time :: "string option"
  g_home_team :: "string option"
  g_homeTeam :: "string option"
  g_away_team :: "string option"
  g_awayTeam :: "string option"
  g_teams :: "string list"
  g_bookmakers :: "bookmaker list"

text \<open>The record \<open>rec\<close> that \<open>get_nba_odds\<close> builds for each game.\<close>

record h2h_market =
  h2h_home_price :: "int option"
  h2h_away_price :: "int option"

record spreads_market =
  sp_home_point :: "real option"
  sp_home_price :: "int option"
  sp_away_point :: "real option"
  sp_away_price :: "int option"

record totals_market =
  over_point :: "real option"
  over_price :: "int option"
  under_point :: "real option"
  under_price :: "int option"

record market_set =
  h2h :: h2h_market
  spreads :: spreads_market
  totals :: totals_market

record game =
  game_id :: "string option"
  commence_time :: "string option"
  home_team :: "string option"
  away_team :: "string option"
  markets :: market_set

definition truthy :: "string option \<Rightarrow> bool" where
  \<comment> \<open>Python truth value of a string or \<open>None\<close>: \<open>None\<close> and \<open>""\<close> are false.\<close>
  "truthy s = (case s of None \<Rightarrow> False | Some v \<Rightarrow> v \<noteq> [])"

definition py_or :: "string option \<Rightarrow> string option \<Rightarrow> string option" where
  \<comment> \<open>Python \<open>a or b\<close>.\<close>
  "py_or a b = (if truthy a then a else b)"

definition lower_char :: "char \<Rightarrow> char" where
  "lower_char c = (let n = (of_char c :: nat) in if 65 \<le> n \<and> n \<le> 90 then char_of (n + 32) else c)"

definition lower :: "string \<Rightarrow> string" where
  \<comment> \<open>\<open>str.lower()\<close> on ASCII letters. No character outside ASCII lowers to a letter of
      \<open>over\<close> or \<open>under\<close>, so the two substring tests below read the same.\<close>
  "lower s = map lower_char s"

fun contains :: "string \<Rightarrow> string \<Rightarrow> bool" where
  \<comment> \<open>\<open>needle in hay\<close> on strings.\<close>
  "contains needle [] = (needle = [])"
| "contains needle (c # cs) = (take (length needle) (c # cs) = needle \<or> contains needle cs)"

definition outcome_desc :: "outcome \<Rightarrow> string" where
  \<comment> \<open>\<open>(o.get("name") or "").lower()\<close>\<close>
  "outcome_desc oc = lower (case py_or (o_name oc) (Some []) of None \<Rightarrow> [] | Some n \<Rightarrow> n)"

definition adopt_if_better ::
  "int option \<times> real option \<Rightarrow> int option \<Rightarrow> real option
     \<Rightarrow> py_error + (int option \<times> real option)" where
  \<comment> \<open>The block the source repeats for each side of spreads and totals:
      \<open>better = _choose_better_moneyline(current, price)\<close>, then price and point are
      overwritten together if \<open>better != current\<close>. The pair is (price, point).\<close>
  "adopt_if_better stored price point =
     (case stored of (current, current_point) \<Rightarrow>
        (case choose_better_moneyline current price of
           Inl e \<Rightarrow> Inl e
         | Inr better \<Rightarrow>
             Inr (if better \<noteq> current then (better, point) else (current, current_point))))"

definition apply_outcome ::
  "string option \<Rightarrow> string option \<Rightarrow> string option \<Rightarrow> outcome \<Rightarrow> market_set
     \<Rightarrow> py_error + market_set" where
  \<comment> \<open>One iteration of \<open>for o in outcomes\<close>, for the market key \<open>key\<close>.\<close>
  "apply_outcome home away key oc ms =
     (if key = Some ''h2h'' then
        (if o_name oc = home then
           (case choose_better_moneyline (h2h_home_price (h2h ms)) (o_price oc) of
              Inl e \<Rightarrow> Inl e
            | Inr b \<Rightarrow> Inr (ms\<lparr>h2h := (h2h ms)\<lparr>h2h_home_price := b\<rparr>\<rparr>))
         else if o_name oc = away then
           (case choose_better_moneyline (h2h_away_price (h2h ms)) (o_price oc) of
              Inl e \<Rightarrow> Inl e
            | Inr b \<Rightarrow> Inr (ms\<lparr>h2h := (h2h ms)\<lparr>h2h_away_price := b\<rparr>\<rparr>))
         else Inr ms)
      else if key = Some ''spreads'' then
        (if o_name oc = home then
           (case adopt_if_better (sp_home_price (spreads ms), sp_home_point (spreads ms))
                   (o_price oc) (o_point oc) of
              Inl e \<Rightarrow> Inl e
            | Inr (pr, pt) \<Rightarrow>
                Inr (ms\<lparr>spreads := (spreads ms)\<lparr>sp_home_price := pr, sp_home_point := pt\<rparr>\<rparr>))
         else if o_name oc = away then
           (case adopt_if_better (sp_away_price (spreads ms), sp_away_point (spreads ms))
                   (o_price oc) (o_point oc) of
              Inl e \<Rightarrow> Inl e
            | Inr (pr, pt) \<Rightarrow>
                Inr (ms\<lparr>spreads := (spreads ms)\<lparr>sp_away_price := pr, sp_away_point := pt\<rparr>\<rparr>))
         else Inr ms)
      else if key = Some ''totals'' then
        (let desc = outcome_desc oc
         in if contains ''over'' desc then
              (case adopt_if_better (over_price (totals ms), over_point (totals ms))
                      (o_price oc) (o_point oc) of
                 Inl e \<Rightarrow> Inl e
               | Inr (pr, pt) \<Rightarrow>
                   Inr (ms\<lparr>totals := (totals ms)\<lparr>over_price := pr, over_point := pt\<rparr>\<rparr>))
            else if contains ''under'' desc then
              (case adopt_if_better (under_price (totals ms), under_point (totals ms))
                      (o_price oc) (o_point oc) of
                 Inl e \<Rightarrow> Inl e
               | Inr (pr, pt) \<Rightarrow>
                   Inr (ms\<lparr>totals := (totals ms)\<lparr>under_price := pr, under_point := pt\<rparr>\<rparr>))
            else Inr ms)
      else Inr ms)"

fun for_each :: "('a \<Rightarrow> 's \<Rightarrow> py_error + 's) \<Rightarrow> 'a list \<Rightarrow> 's \<Rightarrow> py_error + 's" where
  \<comment> \<open>A \<open>for\<close> loop whose body updates the state \<open>s\<close>; an exception ends it.\<close>
  "for_each body [] s = Inr s"
| "for_each body (x # xs) s =
     (case body x s of Inl e \<Rightarrow> Inl e | Inr s' \<Rightarrow> for_each body xs s')"

definition apply_market ::
  "string option \<Rightarrow> string option \<Rightarrow> market \<Rightarrow> market_set \<Rightarrow> py_error + market_set" where
  "apply_market home away m ms = for_each (apply_outcome home away (m_key m)) (m_outcomes m) ms"

definition apply_bookmaker ::
  "string option \<Rightarrow> string option \<Rightarrow> bookmaker \<Rightarrow> market_set \<Rightarrow> py_error + market_set" where
  "apply_bookmaker home away bk ms = for_each (apply_market home away) (bk_markets bk) ms"

definition empty_markets :: market_set where
  "empty_markets =
     \<lparr>h2h = \<lparr>h2h_home_price = None, h2h_away_price = None\<rparr>,
      spreads = \<lparr>sp_home_point = None, sp_home_price = None,
                 sp_away_point = None, sp_away_price = None\<rparr>,
      totals = \<lparr>over_point = None, over_price = None,
                under_point = None, under_price = None\<rparr>\<rparr>"

definition infer_home :: "raw_game \<Rightarrow> string option" where
  "infer_home g = py_or (g_home_team g) (g_homeTeam g)"

definition infer_away :: "raw_game \<Rightarrow> string option" where
  \<comment> \<open>The away-team fallback: with no away field and a two-team list, the first team
      that is not the home team.\<close>
  "infer_away g =
     (let home = infer_home g;
          away = py_or (g_away_team g) (g_awayTeam g)
      in if \<not> truthy away then
           (let teams = g_teams g
            in if truthy home \<and> length teams = 2
               then Some (if Some (teams ! 0) \<noteq> home then teams ! 0 else teams ! 1)
               else away)
         else away)"

definition build_rec :: "raw_game \<Rightarrow> py_error + game" where
  \<comment> \<open>The body of \<open>for g in data\<close> in \<open>get_nba_odds\<close>.\<close>
  "build_rec g =
     (let home = infer_home g; away = infer_away g
      in case for_each (apply_bookmaker home away) (g_bookmakers g) empty_markets of
           Inl e \<Rightarrow> Inl e
         | Inr ms \<Rightarrow>
             Inr \<lparr>game_id = g_id g, commence_time = g_commence_time g,
                  home_team = home, away_team = away, markets = ms\<rparr>)"

fun build_all :: "raw_game list \<Rightarrow> py_error + game list" where
  "build_all [] = Inr []"
| "build_all (g # gs) =
     (case build_rec g of
        Inl e \<Rightarrow> Inl e
      | Inr r \<Rightarrow> (case build_all gs of Inl e \<Rightarrow> Inl e | Inr rs \<Rightarrow> Inr (r # rs)))"

definition get_nba_odds :: "py_error + raw_game list \<Rightarrow> py_error + game list" where
  \<comment> \<open>The argument is the result of \<open>self._get\<close>: the parsed JSON, or the exception
      that \<open>raise_for_status\<close> raises on a response that is not 2xx.\<close>
  "get_nba_odds response = (case response of Inl e \<Rightarrow> Inl e | Inr data \<Rightarrow> build_all data)"

section \<open>tools/cache.py and tools/stats_tool.py: the tiered read path\<close>

text \<open>
  The file system and the clock are an explicit state. A data frame is the list of its
  rows (\<open>df.empty\<close> is \<open>df = []\<close>). A cache file has its modification time, in seconds,
  and what \<open>pd.read_csv\<close> gives for it, \<open>None\<close> when parsing raises. The clock advances
  by the explicit sleeps only; the time a network call takes is not modelled.
  \<open>live_calls\<close> counts the calls made to the stats source.
\<close>

record 'r cache_file =
  mtime :: real
  content :: "'r list option"

record 'r world =
  clock :: real
  files :: "int \<Rightarrow> 'r cache_file option"
  writable :: bool
  live_calls :: nat

text \<open>What one live call (\<open>TeamGameLog(...).get_data_frames()[0]\<close>) does.\<close>

datatype 'r fetch_result = Raises | Frame "'r list"

definition read_df_cache :: "'r world \<Rightarrow> int \<Rightarrow> real \<Rightarrow> 'r list option" where
  "read_df_cache w team_id max_age_hours =
     (case files w team_id of
        None \<Rightarrow> None
      | Some f \<Rightarrow>
          (let age_sec = clock w - mtime f
           in if age_sec > max_age_hours * 3600 then None else content f))"

definition write_df_cache :: "'r world \<Rightarrow> int \<Rightarrow> 'r list \<Rightarrow> 'r world" where
  \<comment> \<open>A failed write is swallowed (\<open>except Exception: pass\<close>); \<open>writable\<close> says whether
      \<open>to_csv\<close> succeeds.\<close>
  "write_df_cache w team_id df =
     (if writable w
      then w\<lparr>files := (files w)(team_id := Some \<lparr>mtime = clock w, content = Some df\<rparr>)\<rparr>
      else w)"

definition sleep :: "real \<Rightarrow> 'r world \<Rightarrow> 'r world" where
  "sleep d w = w\<lparr>clock := clock w + d\<rparr>"

fun fetch_loop ::
  "(nat \<Rightarrow> 'r fetch_result) \<Rightarrow> int \<Rightarrow> nat \<Rightarrow> nat \<Rightarrow> 'r world \<Rightarrow> 'r list option \<times> 'r world" where
  \<comment> \<open>The \<open>for i in range(attempts)\<close> loop of \<open>_fetch_team_gamelog\<close>: \<open>i\<close> is the loop
      index, the fourth argument the number of attempts left, \<open>net k\<close> the outcome of
      the \<open>k\<close>-th live call. \<open>None\<close>: the loop ended without a return.\<close>
  "fetch_loop net team_id i 0 w = (None, w)"
| "fetch_loop net team_id i (Suc n) w =
     (let w1 = sleep (6 / 10) w;
          res = net (live_calls w1);
          w2 = w1\<lparr>live_calls := Suc (live_calls w1)\<rparr>
      in case res of
           Frame df \<Rightarrow>
             if df \<noteq> [] then (Some df, write_df_cache w2 team_id df)
             else fetch_loop net team_id (Suc i) n w2
         | Raises \<Rightarrow> fetch_loop net team_id (Suc i) n (sleep (1 + real i) w2))"

definition fetch_team_gamelog ::
  "(nat \<Rightarrow> 'r fetch_result) \<Rightarrow> int \<Rightarrow> nat \<Rightarrow> 'r world \<Rightarrow> 'r list \<times> 'r world" where
  \<comment> \<open>\<open>_fetch_team_gamelog\<close>; the fallback reads the cache with \<open>max_age_hours=9999\<close>.\<close>
  "fetch_team_gamelog net team_id attempts w =
     (case fetch_loop net team_id 0 attempts w of
        (Some df, w') \<Rightarrow> (df, w')
      | (None, w') \<Rightarrow>
          (case read_df_cache w' team_id 9999 of
             Some cached \<Rightarrow> (cached, w')
           | None \<Rightarrow> ([], w')))"

definition load_dataset ::
  "(nat \<Rightarrow> 'r fetch_result) \<Rightarrow> real \<Rightarrow> int \<Rightarrow> 'r world \<Rightarrow> 'r list \<times> 'r world" where
  \<comment> \<open>The lines of \<open>rolling_team_features\<close> that obtain \<open>df\<close>; \<open>cache_hours\<close> is
      \<open>CACHE_HOURS\<close> (6 unless the environment sets it).\<close>
  "load_dataset net cache_hours team_id w =
     (case read_df_cache w team_id cache_hours of
        Some cached \<Rightarrow> (cached, w)
      | None \<Rightarrow> fetch_team_gamelog net team_id 2 w)"

definition rolling_team_features ::
  "(string \<rightharpoonup> int) \<Rightarrow> (nat \<Rightarrow> 'r list \<Rightarrow> (string \<rightharpoonup> real)) \<Rightarrow> (nat \<Rightarrow> 'r fetch_result) \<Rightarrow> real
     \<Rightarrow> string \<Rightarrow> nat \<Rightarrow> 'r world \<Rightarrow> (string \<rightharpoonup> real) \<times> 'r world" where
  \<comment> \<open>\<open>tmap\<close> is the static name-to-id table; \<open>derive last_n df\<close> stands for the pandas
      code from the sort by \<open>GAME_DATE\<close> to the end, which is not modelled.\<close>
  "rolling_team_features tmap derive net cache_hours team_full_name last_n w =
     (case tmap team_full_name of
        None \<Rightarrow> (Map.empty, w)
      | Some team_id \<Rightarrow>
          (case load_dataset net cache_hours team_id w of
             (df, w') \<Rightarrow> if df = [] then (Map.empty, w') else (derive last_n df, w')))"

section \<open>chains.py: fetch_odds\<close>

definition fetch_odds :: "py_error + raw_game list \<Rightarrow> py_error + game list" where
  "fetch_odds response =
     (case get_nba_odds response of
        Inl e \<Rightarrow> Inl e
      | Inr games \<Rightarrow> Inr (filter (\<lambda>g. truthy (home_team g) \<and> truthy (away_team g)) games))"

section \<open>chains.py: add_team_features\<close>

definition add_team_features_lookups :: "game list \<Rightarrow> string option list" where
  \<comment> \<open>The team names that \<open>add_team_features\<close> hands to \<open>rolling_team_features\<close>, in
      call order: home then away, for each game of its input.\<close>
  "add_team_features_lookups games = concat (map (\<lambda>g. [home_team g, away_team g]) games)"

section \<open>chains.py: score_vs_market and rank_recs\<close>

definition round4 :: "real \<Rightarrow> real" where
  \<comment> \<open>\<open>round(x, 4)\<close> read on reals: to four decimals, a tie going to the even digit.
      Python rounds the double nearest to \<open>x\<close>, which is rarely an exact decimal tie, so
      at an \<open>x\<close> with fifth decimal 5 and nothing after it the two can differ by one
      unit of the fourth decimal. No statement below is made at such a value.\<close>
  "round4 x =
     (let y = x * 10000;
          f = \<lfloor>y\<rfloor>;
          d = y - real_of_int f;
          n = (if d < 1 / 2 then f else if d > 1 / 2 then f + 1 else if even f then f else f + 1)
      in real_of_int n / 10000)"

text \<open>
  The fields of a game that \<open>score_vs_market\<close> reads: the two names (both present after
  \<open>fetch_odds\<close>) and the two best moneyline prices.
\<close>

record priced_game =
  pg_home :: string
  pg_away :: string
  pg_home_ml :: "int option"
  pg_away_ml :: "int option"

text \<open>
  The record \<open>rec\<close> of \<open>score_vs_market\<close>, without the fields it only passes on
  (\<open>commence_time\<close>, \<open>spreads\<close>, \<open>totals\<close>).
\<close>

record scored =
  s_home :: string
  s_away :: string
  s_moneyline_home :: "int option"
  s_moneyline_away :: "int option"
  s_model_home :: real
  s_model_away :: real
  s_implied_home :: "real option"
  s_implied_away :: "real option"
  s_edge_home :: "real option"
  s_edge_away :: "real option"
  s_ev_home :: "real option"
  s_ev_away :: "real option"
  s_kelly_home :: "real option"
  s_kelly_away :: "real option"

definition on_price ::
  "(real \<Rightarrow> int \<Rightarrow> py_error + real) \<Rightarrow> real \<Rightarrow> int option \<Rightarrow> py_error + real option" where
  \<comment> \<open>\<open>f(p, ml) if ml is not None else None\<close>\<close>
  "on_price f p ml =
     (case ml of
        None \<Rightarrow> Inr None
      | Some a \<Rightarrow> (case f p a of Inl e \<Rightarrow> Inl e | Inr v \<Rightarrow> Inr (Some v)))"

definition score_game ::
  "(string \<rightharpoonup> real) option \<Rightarrow> real \<Rightarrow> priced_game \<Rightarrow> py_error + scored" where
  \<comment> \<open>The body of \<open>for g in inp["games"]\<close> in \<open>score_vs_market\<close>. \<open>p_model\<close> is what
      \<open>MODEL.predict_proba(row)\<close> returns (0.5 when no trained model is loaded); \<open>file\<close> is
      the parsed injuries file.\<close>
  "score_game file p_model g =
     (let home = pg_home g; away = pg_away g;
          p_home = adjust_home_prob file home away p_model;
          p_away = 1 - p_home;
          home_ml = pg_home_ml g; away_ml = pg_away_ml g;
          imp_home = american_to_implied home_ml;
          imp_away = american_to_implied away_ml
      in case on_price ev_from_prob p_home home_ml of Inl e \<Rightarrow> Inl e | Inr ev_home \<Rightarrow>
         case on_price kelly_fraction p_home home_ml of Inl e \<Rightarrow> Inl e | Inr kelly_home \<Rightarrow>
         case on_price ev_from_prob p_away away_ml of Inl e \<Rightarrow> Inl e | Inr ev_away \<Rightarrow>
         case on_price kelly_fraction p_away away_ml of Inl e \<Rightarrow> Inl e | Inr kelly_away \<Rightarrow>
           Inr \<lparr>s_home = home, s_away = away,
                s_moneyline_home = home_ml, s_moneyline_away = away_ml,
                s_model_home = round4 p_home, s_model_away = round4 p_away,
                s_implied_home = map_option round4 imp_home,
                s_implied_away = map_option round4 imp_away,
                s_edge_home = map_option (\<lambda>i. round4 (p_home - i)) imp_home,
                s_edge_away = map_option (\<lambda>i. round4 (p_away - i)) imp_away,
                s_ev_home = map_option round4 ev_home,
                s_ev_away = map_option round4 ev_away,
                s_kelly_home = map_option round4 kelly_home,
                s_kelly_away = map_option round4 kelly_away\<rparr>)"

record recommendation = scored +
  best_side :: string
  best_metric :: "real option"
  metric_name :: string

definition or_default :: "real option \<Rightarrow> real \<Rightarrow> real" where
  \<comment> \<open>Python \<open>x or d\<close> on a float or \<open>None\<close>: \<open>None\<close> and \<open>0.0\<close> are both false.\<close>
  "or_default x d = (case x of None \<Rightarrow> d | Some v \<Rightarrow> if v = 0 then d else v)"

definition rank_item :: "scored \<Rightarrow> recommendation" where
  \<comment> \<open>The body of \<open>for g in inp["scored"]\<close> in \<open>rank_recs\<close>.\<close>
  "rank_item g =
     (let home_ev = s_ev_home g; away_ev = s_ev_away g
      in if home_ev \<noteq> None \<or> away_ev \<noteq> None then
           (let side = (if or_default home_ev (- 9) \<ge> or_default away_ev (- 9)
                        then ''home'' else ''away'');
                metric = (if side = ''home'' then home_ev else away_ev)
            in scored.extend g (recommendation.fields side metric ''EV''))
         else
           (let home_edge = s_edge_home g; away_edge = s_edge_away g;
                side = (if or_default home_edge (- 9) \<ge> or_default away_edge (- 9)
                        then ''home'' else ''away'');
                metric = (if side = ''home'' then home_edge else away_edge)
            in scored.extend g (recommendation.fields side metric ''edge'')))"

definition sort_key_of :: "recommendation \<Rightarrow> real" where
  \<comment> \<open>The \<open>key\<close> of \<open>items.sort\<close>.\<close>
  "sort_key_of r = (case best_metric r of None \<Rightarrow> - 999 | Some v \<Rightarrow> v)"

definition sort_reverse :: "('a \<Rightarrow> real) \<Rightarrow> 'a list \<Rightarrow> 'a list" where
  \<comment> \<open>\<open>list.sort(key=key, reverse=True)\<close>: CPython reverses the list, sorts it stably
      in ascending order and reverses the result, so equal keys keep their input order.\<close>
  "sort_reverse key xs = rev (sort_key key (rev xs))"

definition rank_recs :: "scored list \<Rightarrow> recommendation list" where
  "rank_recs scored_games = sort_reverse sort_key_of (map rank_item scored_games)"

section \<open>Predicates used in the statements\<close>






section \<open>Example inputs\<close>

definition two_book_game :: raw_game where
  "two_book_game =
     \<lparr>g_id = Some ''g1'', g_commence_time = Some ''2025-01-01T00:00:00Z'',
      g_home_team = Some ''Boston Celtics'', g_homeTeam = None,
      g_away_team = None, g_awayTeam = None,
      g_teams = [''Boston Celtics'', ''Memphis Grizzlies''],
      g_bookmakers =
        [\<lparr>bk_markets =
            [\<lparr>m_key = Some ''spreads'',
              m_outcomes = [\<lparr>o_name = Some ''Boston Celtics'', o_price = Some (- 110), o_point = Some (- 7 / 2)\<rparr>,
                            \<lparr>o_name = Some ''Memphis Grizzlies'', o_price = Some (- 110), o_point = Some (7 / 2)\<rparr>]\<rparr>,
             \<lparr>m_key = Some ''totals'',
              m_outcomes = [\<lparr>o_name = Some ''Over'', o_price = Some (- 110), o_point = Some 220\<rparr>,
                            \<lparr>o_name = Some ''Under'', o_price = Some (- 110), o_point = Some 220\<rparr>]\<rparr>]\<rparr>,
         \<lparr>bk_markets =
            [\<lparr>m_key = Some ''spreads'',
              m_outcomes = [\<lparr>o_name = Some ''Boston Celtics'', o_price = Some (- 105), o_point = Some (- 4)\<rparr>,
                            \<lparr>o_name = Some ''Memphis Grizzlies'', o_price = Some (- 115), o_point = Some 4\<rparr>]\<rparr>,
             \<lparr>m_key = Some ''h2h'',
              m_outcomes = [\<lparr>o_name = Some ''Boston Celtics'', o_price = Some (- 150), o_point = None\<rparr>,
                            \<lparr>o_name = Some ''Memphis Grizzlies'', o_price = Some 130, o_point = None\<rparr>]\<rparr>]\<rparr>]\<rparr>"

definition nameless_game :: raw_game where
  "nameless_game =
     \<lparr>g_id = Some ''g2'', g_commence_time = None,
      g_home_team = Some ''Denver Nuggets'', g_homeTeam = None,
      g_away_team = None, g_awayTeam = None,
      g_teams = [], g_bookmakers = []\<rparr>"

definition even_money_home :: priced_game where
  "even_money_home =
     \<lparr>pg_home = ''Boston Celtics'', pg_away = ''Memphis Grizzlies'',
      pg_home_ml = Some 100, pg_away_ml = Some (- 120)\<rparr>"

definition even_money_scored :: scored where
  "even_money_scored =
     \<lparr>s_home = ''Boston Celtics'', s_away = ''Memphis Grizzlies'',
      s_moneyline_home = Some 100, s_moneyline_away = Some (- 120),
      s_model_home = 1 / 2, s_model_away = 1 / 2,
      s_implied_home = Some (1 / 2), s_implied_away = Some (5455 / 10000),
      s_edge_home = Some 0, s_edge_away = Some (- 455 / 10000),
      s_ev_home = Some 0, s_ev_away = Some (- 833 / 10000),
      s_kelly_home = Some 0, s_kelly_away = Some 0\<rparr>"

definition home_unpriced :: priced_game where
  "home_unpriced =
     \<lparr>pg_home = ''Denver Nuggets'', pg_away = ''Utah Jazz'',
      pg_home_ml = None, pg_away_ml = Some 100\<rparr>"

definition old_cache_world :: "nat world" where
  "old_cache_world =
     \<lparr>clock = 10000 * 3600,
      files = (\<lambda>_. None)(1610612738 := Some \<lparr>mtime = 0, content = Some [101, 99, 120]\<rparr>),
      writable = True, live_calls = 0\<rparr>"

section \<open>Properties of the odds helpers\<close>

lemma profit_code_eq_spec:
  "a \<noteq> 0 \<Longrightarrow>
   (if a > 0 then Inr (real_of_int a / 100) else py_truediv 100 (real_of_int (- a)))
     = (Inr (spec_profit_if_win a) :: py_error + real)"
  by (simp add: py_truediv_def spec_profit_if_win_def)

lemma spec_profit_pos: "a \<noteq> 0 \<Longrightarrow> 0 < spec_profit_if_win a"
  by (simp add: spec_profit_if_win_def)

text \<open>
  Claim C5. The implied probability of American odds \<open>a\<close> is \<open>(-a)/((-a)+100)\<close> for
  negative \<open>a\<close> and \<open>100/(a+100)\<close> for positive \<open>a\<close>; absent odds give no value
  (\<open>None\<close>, not zero).
\<close>

theorem american_to_implied_formula:
  "(a < 0 \<longrightarrow> american_to_implied (Some a) = Some (real_of_int (- a) / (real_of_int (- a) + 100)))
   \<and> (a > 0 \<longrightarrow> american_to_implied (Some a) = Some (100 / (real_of_int a + 100)))
   \<and> american_to_implied None = None
   \<and> american_to_implied None \<noteq> Some 0"
  by (simp add: american_to_implied_def)

theorem american_to_implied_formula_witness:
  "american_to_implied (Some (- 150)) = Some (6 / 10)
   \<and> american_to_implied (Some 200) = Some (100 / 300)
   \<and> american_to_implied None = None"
  using american_to_implied_formula [of "- 150"] american_to_implied_formula [of 200]
  by simp

text \<open>
  Claim C6. For every probability \<open>p\<close> and nonzero American odds \<open>a\<close> the expected value
  per unit stake is \<open>p * profit - (1 - p)\<close>, with the profit \<open>a/100\<close> for \<open>a > 0\<close> and
  \<open>100/|a|\<close> otherwise.
\<close>

theorem ev_from_prob_formula:
  "a \<noteq> 0 \<Longrightarrow> ev_from_prob p a = Inr (p * spec_profit_if_win a - (1 - p))"
  by (simp add: ev_from_prob_def profit_code_eq_spec)

theorem ev_from_prob_formula_witness:
  "(100::int) \<noteq> 0 \<and> spec_profit_if_win 100 = 1 \<and> ev_from_prob (1 / 2) 100 = Inr 0"
  using ev_from_prob_formula [of 100 "1 / 2"]
  by (simp add: spec_profit_if_win_def)

text \<open>
  Claim C7. For nonzero American odds \<open>a\<close> the Kelly fraction is
  \<open>max 0 ((p * (b + 1) - 1) / b)\<close> with \<open>b\<close> the profit-if-win multiplier, which is
  strictly positive; the result is never negative; and the body of the function guards
  a zero \<open>b\<close>: handed \<open>b = 0\<close> it returns 0, where the division it would otherwise
  reach raises \<open>ZeroDivisionError\<close>. The statement holds for every \<open>p\<close>, in particular
  for \<open>p\<close> in \<open>(0,1)\<close>.
\<close>

theorem kelly_fraction_formula:
  "a \<noteq> 0 \<Longrightarrow>
     0 < spec_profit_if_win a
     \<and> kelly_fraction p a
         = Inr (max 0 ((p * (spec_profit_if_win a + 1) - 1) / spec_profit_if_win a))
     \<and> (\<exists>f. kelly_fraction p a = Inr f \<and> 0 \<le> f)
     \<and> kelly_body p 0 = Inr 0
     \<and> py_truediv (p * (0 + 1) - 1) 0 = Inl ZeroDivisionError"
proof -
  assume nz: "a \<noteq> 0"
  have pos: "0 < spec_profit_if_win a"
    using nz by (rule spec_profit_pos)
  have val: "kelly_fraction p a
      = Inr (max 0 ((p * (spec_profit_if_win a + 1) - 1) / spec_profit_if_win a))"
    using pos
    by (simp add: kelly_fraction_def profit_code_eq_spec [OF nz] kelly_body_def
        py_truediv_def Let_def)
  have guard: "kelly_body p 0 = Inr 0"
    by (simp add: kelly_body_def)
  have unguarded: "py_truediv (p * (0 + 1) - 1) 0 = Inl ZeroDivisionError"
    by (simp add: py_truediv_def)
  from pos val guard unguarded show ?thesis by simp
qed

theorem kelly_fraction_formula_witness:
  "(100::int) \<noteq> 0 \<and> spec_profit_if_win 100 = 1 \<and> kelly_fraction (1 / 2) 100 = Inr 0
   \<and> kelly_body (1 / 2) 0 = Inr 0"
  using kelly_fraction_formula [of 100 "1 / 2"]
  by (simp add: spec_profit_if_win_def)

section \<open>Properties of the probability adjustment\<close>

lemma clamp_bounds: "lo \<le> hi \<Longrightarrow> lo \<le> clamp x lo hi \<and> clamp x lo hi \<le> hi"
  by (simp add: clamp_def)

lemma clamp_is_max_min: "lo \<le> hi \<Longrightarrow> clamp x lo hi = max lo (min hi x)"
  by (simp add: clamp_def max_def min_def)

text \<open>
  Claim C8. For all team names and every (real, hence finite) probability and offsets,
  \<open>adjust_home_prob\<close> returns \<open>p + offset(home) - offset(away)\<close> clamped to
  \<open>[0.01, 0.99]\<close>, a team without an entry having offset 0; so the result always lies in
  \<open>[0.01, 0.99]\<close>.
\<close>

theorem adjust_home_prob_clamped:
  "adjust_home_prob file home away p
     = max (1 / 100) (min (99 / 100)
         (p + (case load_adjustments file home of None \<Rightarrow> 0 | Some v \<Rightarrow> v)
            - (case load_adjustments file away of None \<Rightarrow> 0 | Some v \<Rightarrow> v)))
   \<and> 1 / 100 \<le> adjust_home_prob file home away p
   \<and> adjust_home_prob file home away p \<le> 99 / 100"
proof -
  have eq: "adjust_home_prob file home away p
     = max (1 / 100) (min (99 / 100)
         (p + (case load_adjustments file home of None \<Rightarrow> 0 | Some v \<Rightarrow> v)
            - (case load_adjustments file away of None \<Rightarrow> 0 | Some v \<Rightarrow> v)))"
    by (simp add: adjust_home_prob_def Let_def clamp_is_max_min)
  have bounds: "1 / 100 \<le> adjust_home_prob file home away p
      \<and> adjust_home_prob file home away p \<le> 99 / 100"
    unfolding adjust_home_prob_def Let_def by (rule clamp_bounds) simp
  from eq bounds show ?thesis by blast
qed

text \<open>
  Claim C10. When the adjustment mapping has an entry for neither team (in particular
  when it is empty, as it is when the injuries file is missing or malformed),
  \<open>adjust_home_prob\<close> returns \<open>p\<close> unchanged for \<open>p\<close> in \<open>[0.01, 0.99]\<close>, and the
  bound \<open>0.01\<close> or \<open>0.99\<close> for \<open>p\<close> outside that range.
\<close>

theorem adjust_home_prob_no_entry:
  assumes "load_adjustments file home = None" and "load_adjustments file away = None"
  shows "(1 / 100 \<le> p \<and> p \<le> 99 / 100 \<longrightarrow> adjust_home_prob file home away p = p)
       \<and> (p < 1 / 100 \<longrightarrow> adjust_home_prob file home away p = 1 / 100)
       \<and> (99 / 100 < p \<longrightarrow> adjust_home_prob file home away p = 99 / 100)"
  using assms by (simp add: adjust_home_prob_def Let_def clamp_def)

theorem adjust_home_prob_no_entry_witness:
  "load_adjustments None ''Boston Celtics'' = None
   \<and> load_adjustments None ''Memphis Grizzlies'' = None
   \<and> adjust_home_prob None ''Boston Celtics'' ''Memphis Grizzlies'' (1 / 2) = 1 / 2
   \<and> adjust_home_prob None ''Boston Celtics'' ''Memphis Grizzlies'' 0 = 1 / 100
   \<and> adjust_home_prob None ''Boston Celtics'' ''Memphis Grizzlies'' 1 = 99 / 100"
proof -
  have h: "load_adjustments None ''Boston Celtics'' = None"
    by (simp add: load_adjustments_def)
  have a: "load_adjustments None ''Memphis Grizzlies'' = None"
    by (simp add: load_adjustments_def)
  show ?thesis
    using h a adjust_home_prob_no_entry [OF h a, of "1 / 2"]
      adjust_home_prob_no_entry [OF h a, of 0] adjust_home_prob_no_entry [OF h a, of 1]
    by simp
qed

section \<open>Properties of the best-price selection\<close>

lemma payout_nonzero:
  "a \<noteq> 0 \<Longrightarrow> american_payout_per_dollar a = Inr (spec_payout_per_dollar a)"
  by (simp add: american_payout_per_dollar_def spec_payout_per_dollar_def py_truediv_def Let_def)

lemma choose_nonzero:
  "c \<noteq> 0 \<Longrightarrow> n \<noteq> 0 \<Longrightarrow>
   choose_better_moneyline (Some c) (Some n)
     = Inr (Some (if spec_payout_per_dollar n > spec_payout_per_dollar c then n else c))"
  by (simp add: choose_better_moneyline_def payout_nonzero)

text \<open>
  Claim C3. For two American prices of the same side (each \<open>\<ge> 100\<close> or negative), the
  comparator returns the one with the larger payout per dollar, the payout being
  \<open>a/100\<close> for \<open>a \<ge> 100\<close> and \<open>100/|a|\<close> for negative \<open>a\<close>; when the payouts are equal
  the incumbent \<open>current\<close> is kept.
\<close>

theorem choose_better_moneyline_larger_payout:
  assumes "100 \<le> cur \<or> cur < 0" and "100 \<le> new \<or> new < 0"
  shows "\<exists>r. choose_better_moneyline (Some cur) (Some new) = Inr (Some r)
     \<and> (r = cur \<or> r = new)
     \<and> american_payout_per_dollar r = Inr (spec_payout_per_dollar r)
     \<and> spec_payout_per_dollar r = max (spec_payout_per_dollar cur) (spec_payout_per_dollar new)
     \<and> (spec_payout_per_dollar new > spec_payout_per_dollar cur \<longrightarrow> r = new)
     \<and> (spec_payout_per_dollar new \<le> spec_payout_per_dollar cur \<longrightarrow> r = cur)"
proof -
  from assms have nz: "cur \<noteq> 0" "new \<noteq> 0" by auto
  show ?thesis
    unfolding choose_nonzero [OF nz] using nz by (simp add: max_def payout_nonzero)
qed

theorem choose_better_moneyline_larger_payout_witness:
  "(100 \<le> (- 110 :: int) \<or> (- 110 :: int) < 0) \<and> (100 \<le> (- 105 :: int) \<or> (- 105 :: int) < 0)
   \<and> choose_better_moneyline (Some (- 110)) (Some (- 105)) = Inr (Some (- 105))
   \<and> choose_better_moneyline (Some (- 105)) (Some (- 110)) = Inr (Some (- 105))
   \<and> choose_better_moneyline (Some 100) (Some (- 100)) = Inr (Some 100)"
  using choose_better_moneyline_larger_payout [of "- 110" "- 105"]
    choose_better_moneyline_larger_payout [of "- 105" "- 110"]
    choose_better_moneyline_larger_payout [of 100 "- 100"]
  by (simp add: spec_payout_per_dollar_def)
















section \<open>Properties of fetch_odds\<close>

lemma build_rec_names:
  "build_rec g = Inr r \<Longrightarrow> home_team r = infer_home g \<and> away_team r = infer_away g"
  by (auto simp: build_rec_def Let_def split: sum.splits)

lemma build_all_filter:
  "build_all data = Inr games \<Longrightarrow>
   build_all (filter (\<lambda>g. truthy (infer_home g) \<and> truthy (infer_away g)) data)
     = Inr (filter (\<lambda>r. truthy (home_team r) \<and> truthy (away_team r)) games)"
proof (induction data arbitrary: games)
  case Nil
  then show ?case by simp
next
  case (Cons g gs)
  from Cons.prems obtain r rs where r: "build_rec g = Inr r" and rs: "build_all gs = Inr rs"
    and games: "games = r # rs"
    by (auto split: sum.splits)
  from build_rec_names [OF r] Cons.IH [OF rs] r games show ?case
    by simp
qed

lemma build_all_length: "build_all data = Inr games \<Longrightarrow> length games = length data"
  by (induction data arbitrary: games) (auto split: sum.splits)

text \<open>
  Claim C9. A game whose home or away name is missing after the away-team inference is
  dropped by \<open>fetch_odds\<close>: every record it returns has both names, the feature stage
  looks up present names only, and the result is exactly what the aggregation gives
  on the input with the nameless games removed. \<open>fetch_odds\<close> is the only source of
  games for the later stages of the chain.
\<close>

theorem fetch_odds_drops_nameless:
  assumes "fetch_odds (Inr data) = Inr out"
  shows "(\<forall>r \<in> set out. truthy (home_team r) \<and> truthy (away_team r))
       \<and> (\<forall>n \<in> set (add_team_features_lookups out). truthy n)
       \<and> build_all (filter (\<lambda>g. truthy (infer_home g) \<and> truthy (infer_away g)) data) = Inr out
       \<and> length out = length (filter (\<lambda>g. truthy (infer_home g) \<and> truthy (infer_away g)) data)"
proof -
  from assms obtain games where games: "build_all data = Inr games"
    and out: "out = filter (\<lambda>r. truthy (home_team r) \<and> truthy (away_team r)) games"
    by (auto simp: fetch_odds_def get_nba_odds_def split: sum.splits)
  have named: "\<forall>r \<in> set out. truthy (home_team r) \<and> truthy (away_team r)"
    using out by simp
  have lookups: "\<forall>n \<in> set (add_team_features_lookups out). truthy n"
    using named by (auto simp: add_team_features_lookups_def)
  have same: "build_all (filter (\<lambda>g. truthy (infer_home g) \<and> truthy (infer_away g)) data) = Inr out"
    using build_all_filter [OF games] out by simp
  have len: "length out = length (filter (\<lambda>g. truthy (infer_home g) \<and> truthy (infer_away g)) data)"
    using build_all_length [OF same] by simp
  from named lookups same len show ?thesis by blast
qed

theorem fetch_odds_drops_nameless_witness:
  "\<not> truthy (infer_away nameless_game)
   \<and> (\<exists>out. fetch_odds (Inr [nameless_game, two_book_game, nameless_game]) = Inr out
        \<and> length out = 1
        \<and> map game_id out = [Some ''g1'']
        \<and> (\<forall>r \<in> set out. truthy (home_team r) \<and> truthy (away_team r)))"
proof -
  have away: "\<not> truthy (infer_away nameless_game)"
    by (simp add: infer_away_def infer_home_def nameless_game_def py_or_def truthy_def Let_def)
  have names: "truthy (infer_home two_book_game) \<and> truthy (infer_away two_book_game)"
    by (simp add: infer_away_def infer_home_def two_book_game_def py_or_def truthy_def Let_def)
  have val: "fetch_odds (Inr [nameless_game, two_book_game, nameless_game]) =
     Inr [\<lparr>game_id = Some ''g1'', commence_time = Some ''2025-01-01T00:00:00Z'',
        home_team = Some ''Boston Celtics'', away_team = Some ''Memphis Grizzlies'',
        markets = \<lparr>h2h = \<lparr>h2h_home_price = Some (- 150), h2h_away_price = Some 130\<rparr>,
          spreads = \<lparr>sp_home_point = Some (- 4), sp_home_price = Some (- 105),
                     sp_away_point = Some (7 / 2), sp_away_price = Some (- 110)\<rparr>,
          totals = \<lparr>over_point = Some 220, over_price = Some (- 110),
                    under_point = Some 220, under_price = Some (- 110)\<rparr>\<rparr>\<rparr>]"
    by code_simp
  from fetch_odds_drops_nameless [OF val] away names val show ?thesis
    by simp
qed

section \<open>Properties of the ranker\<close>

lemma rank_recs_sorted: "sorted (rev (map sort_key_of (rank_recs xs)))"
  by (simp add: rank_recs_def sort_reverse_def rev_map [symmetric])

lemma rank_recs_set: "set (rank_recs xs) = rank_item ` set xs"
  by (simp add: rank_recs_def sort_reverse_def)

lemma rank_recs_stable:
  "filter (\<lambda>r. sort_key_of r = k) (rank_recs xs) = filter (\<lambda>r. sort_key_of r = k) (map rank_item xs)"
proof -
  have "filter (\<lambda>r. sort_key_of r = k) (rank_recs xs)
      = rev (filter (\<lambda>r. sort_key_of r = k) (sort_key sort_key_of (rev (map rank_item xs))))"
    by (simp add: rank_recs_def sort_reverse_def rev_filter)
  also have "\<dots> = rev (filter (\<lambda>r. sort_key_of r = k) (rev (map rank_item xs)))"
    by (simp add: sort_key_stable)
  also have "\<dots> = filter (\<lambda>r. sort_key_of r = k) (map rank_item xs)"
    by (simp add: rev_filter)
  finally show ?thesis .
qed

lemma rank_item_higher_ev:
  assumes "s_ev_home g = Some h" and "s_ev_away g = Some a"
    and "h \<noteq> 0" and "a \<noteq> 0"
  shows "best_metric (rank_item g) = Some (max h a) \<and> metric_name (rank_item g) = ''EV''
       \<and> best_side (rank_item g) = (if h \<ge> a then ''home'' else ''away'')"
  using assms
  by (simp add: rank_item_def Let_def or_default_def scored.extend_def
      recommendation.fields_def max_def)

lemma score_even_money: "score_game None (1 / 2) even_money_home = Inr even_money_scored"
  by (simp add: score_game_def even_money_home_def even_money_scored_def Let_def on_price_def
      adjust_home_prob_def load_adjustments_def clamp_def american_to_implied_def
      ev_from_prob_def kelly_fraction_def kelly_body_def py_truediv_def round4_def)

lemma rank_even_money:
  "map (\<lambda>r. (best_side r, best_metric r, metric_name r)) (rank_recs [even_money_scored])
     = [(''away'', Some (- 833 / 10000), ''EV'')]"
  by (simp add: rank_recs_def sort_reverse_def rank_item_def even_money_scored_def Let_def
      or_default_def scored.extend_def recommendation.fields_def)

lemma rank_home_unpriced:
  "\<exists>g. score_game None (1 / 2) home_unpriced = Inr g
     \<and> s_ev_home g = None \<and> s_ev_away g = Some 0
     \<and> map (\<lambda>r. (best_side r, best_metric r, metric_name r)) (rank_recs [g])
         = [(''home'', None, ''EV'')]"
  by (simp add: score_game_def home_unpriced_def Let_def on_price_def
      adjust_home_prob_def load_adjustments_def clamp_def american_to_implied_def
      ev_from_prob_def kelly_fraction_def kelly_body_def py_truediv_def round4_def
      rank_recs_def sort_reverse_def rank_item_def
      or_default_def scored.extend_def recommendation.fields_def)

text \<open>
  Claim C1. Per game the ranker is to choose the side with the higher EV when at least
  one side has an EV (an undefined EV counting as a large negative number in the
  comparison only, never shown as the chosen metric), with metric name \<open>EV\<close>, to fall
  back to the edge when neither side has an EV, and to sort the list in descending order
  of the chosen metric, undefined last, ties in input order.

  The code does not do this when an EV is exactly 0, because \<open>home_ev or -9\<close> replaces
  a zero as it replaces \<open>None\<close>. With no trained model (probability 0.5), no injuries
  file, home at +100 and away at -120 the scorer gives EV 0 for home and -0.0833 for
  away, and the ranker chooses away, the lower EV. With no home price and away at +100
  the only defined EV is 0, and the ranker chooses home and shows the undefined metric.
\<close>

theorem rank_recs_zero_ev_treated_as_missing:
  "score_game None (1 / 2) even_money_home = Inr even_money_scored
   \<and> s_ev_home even_money_scored = Some 0
   \<and> s_ev_away even_money_scored = Some (- 833 / 10000)
   \<and> map (\<lambda>r. (best_side r, best_metric r, metric_name r)) (rank_recs [even_money_scored])
       = [(''away'', Some (- 833 / 10000), ''EV'')]
   \<and> (\<exists>g. score_game None (1 / 2) home_unpriced = Inr g
         \<and> s_ev_home g = None \<and> s_ev_away g = Some 0
         \<and> map (\<lambda>r. (best_side r, best_metric r, metric_name r)) (rank_recs [g])
             = [(''home'', None, ''EV'')])"
proof -
  have evs: "s_ev_home even_money_scored = Some 0
      \<and> s_ev_away even_money_scored = Some (- 833 / 10000)"
    by (simp add: even_money_scored_def)
  from score_even_money evs rank_even_money rank_home_unpriced show ?thesis
    by blast
qed

section \<open>Properties of the tiered read path\<close>

lemma load_dataset_fresh:
  assumes "files w team_id = Some f" and "content f = Some df"
    and "clock w - mtime f \<le> cache_hours * 3600"
  shows "load_dataset net cache_hours team_id w = (df, w)"
  using assms by (simp add: load_dataset_def read_df_cache_def Let_def)

lemma load_dataset_live_first:
  assumes "read_df_cache w team_id cache_hours = None"
    and "net (live_calls w) = Frame df" and "df \<noteq> []"
  shows "load_dataset net cache_hours team_id w
     = (df, write_df_cache ((sleep (6 / 10) w)\<lparr>live_calls := Suc (live_calls w)\<rparr>) team_id df)"
  using assms
  by (simp add: load_dataset_def fetch_team_gamelog_def numeral_2_eq_2 Let_def sleep_def)

lemma load_dataset_live_second:
  assumes "read_df_cache w team_id cache_hours = None"
    and "net (live_calls w) = Raises"
    and "net (Suc (live_calls w)) = Frame df" and "df \<noteq> []"
  shows "fst (load_dataset net cache_hours team_id w) = df
       \<and> live_calls (snd (load_dataset net cache_hours team_id w)) = live_calls w + 2"
  using assms
  by (simp add: load_dataset_def fetch_team_gamelog_def numeral_2_eq_2 Let_def sleep_def
      write_df_cache_def)

lemma load_dataset_stale_fallback:
  assumes "read_df_cache w team_id cache_hours = None"
    and "net (live_calls w) = Raises" and "net (Suc (live_calls w)) = Raises"
    and "files w team_id = Some f" and "content f = Some df"
    and "clock w + 42 / 10 - mtime f \<le> 9999 * 3600"
  shows "fst (load_dataset net cache_hours team_id w) = df
       \<and> live_calls (snd (load_dataset net cache_hours team_id w)) = live_calls w + 2"
  using assms
  by (simp add: load_dataset_def fetch_team_gamelog_def numeral_2_eq_2 Let_def sleep_def
      read_df_cache_def)

lemma load_dataset_nothing:
  assumes "files w team_id = None"
    and "net (live_calls w) = Raises" and "net (Suc (live_calls w)) = Raises"
  shows "fst (load_dataset net cache_hours team_id w) = []"
  using assms
  by (simp add: load_dataset_def fetch_team_gamelog_def numeral_2_eq_2 Let_def sleep_def
      read_df_cache_def)

lemma load_dataset_scenario:
  assumes "files w team_id = Some \<lparr>mtime = T, content = Some df\<rparr>" and "df \<noteq> []"
  shows "clock w = T + 5 * 3600 \<Longrightarrow> load_dataset net 6 team_id w = (df, w)"
    and "clock w = T + 7 * 3600 \<Longrightarrow>
           live_calls (snd (load_dataset net 6 team_id w)) > live_calls w"
proof -
  show "clock w = T + 5 * 3600 \<Longrightarrow> load_dataset net 6 team_id w = (df, w)"
    using assms by (simp add: load_dataset_def read_df_cache_def Let_def)
  assume c: "clock w = T + 7 * 3600"
  have stale: "read_df_cache w team_id 6 = None"
    using assms c by (simp add: read_df_cache_def Let_def)
  show "live_calls (snd (load_dataset net 6 team_id w)) > live_calls w"
    unfolding load_dataset_def stale
    by (cases "net (live_calls w)"; cases "net (Suc (live_calls w))")
       (auto simp: fetch_team_gamelog_def numeral_2_eq_2 Let_def sleep_def
          write_df_cache_def split: option.splits)
qed

text \<open>
  Claim C2. The read path is tiered, first success winning: a persisted dataset no older
  than the threshold is used without a live call (lemma \<open>load_dataset_fresh\<close>; at
  \<open>T + 5h\<close> under 6 hours, and a live call at \<open>T + 7h\<close>, lemma
  \<open>load_dataset_scenario\<close>); otherwise up to two live attempts, the first non-empty
  result persisted and used (\<open>load_dataset_live_first\<close>, \<open>load_dataset_live_second\<close>);
  if all fail the persisted dataset is to be used regardless of its age; with none, the
  snapshot is empty (\<open>load_dataset_nothing\<close>).

  The code uses the persisted dataset in the fallback only if it is at most 9999 hours
  old (\<open>load_dataset_stale_fallback\<close>). A cache file written 10000 hours ago, with both
  live attempts raising, gives the empty data frame and the empty snapshot, although the
  file holds a dataset.
\<close>

theorem stale_cache_age_limit:
  "files old_cache_world 1610612738 = Some \<lparr>mtime = 0, content = Some [101, 99, 120]\<rparr>
   \<and> load_dataset (\<lambda>_. Raises) 6 1610612738 old_cache_world
       = ([], old_cache_world\<lparr>clock := 10000 * 3600 + 42 / 10, live_calls := 2\<rparr>)
   \<and> fst (rolling_team_features [''Boston Celtics'' \<mapsto> 1610612738] derive (\<lambda>_. Raises) 6
            ''Boston Celtics'' 10 old_cache_world) = Map.empty"
  by (simp add: rolling_team_features_def load_dataset_def read_df_cache_def old_cache_world_def
      fetch_team_gamelog_def sleep_def Let_def numeral_2_eq_2)

end
